theory Spec2Isabelle
  imports Complex_Main
begin

section \<open>Common types\<close>

text \<open>
  The logging core of claude-code-router returns a hand-rolled \<open>Result<T, Error>\<close>
  from every fallible method. It is modelled as \<open>error + 'a\<close>: \<open>Err (new Error msg)\<close>
  is \<open>Inl (Error msg)\<close> and \<open>Ok v\<close> is \<open>Inr v\<close>. A method that also mutates its object
  returns the result paired with the object after the call.

  JavaScript numbers are modelled as \<open>int\<close> where the code only counts or reads the
  clock (\<open>Date.now()\<close> is an integer number of milliseconds) and as \<open>rat\<close> where it
  divides. \<open>Date.now()\<close> is a parameter \<open>now\<close> of every method that reads it.
  Lines written to the pino logger go to the external sink and are not part of the state.
\<close>

datatype error = Error string

text \<open>JavaScript truthiness of an optional string: \<open>undefined\<close> and \<open>''\<close> are falsy.\<close>

fun truthy :: "string option \<Rightarrow> bool" where
  "truthy None = False"
| "truthy (Some s) = (s \<noteq> [])"

section \<open>RequestContextTracker (tracking/RequestContextTracker.ts)\<close>

text \<open>
  The enum \<open>RequestStatus\<close> of types/request-context.ts, which the tracker imports. It
  has no member \<open>CREATED\<close> and no member \<open>ACTIVE\<close>, the two names the tracker reads
  besides \<open>COMPLETED\<close> and \<open>FAILED\<close>. An enum is an object at run time, and reading
  a property it does not have yields \<open>undefined\<close>: \<open>RequestStatus_member name\<close> is
  the value of \<open>RequestStatus.name\<close>, \<open>None\<close> for \<open>undefined\<close>. The status of a
  context is therefore optional.
\<close>

datatype RequestStatus =
  STARTED | ROUTING | PROCESSING | STREAMING | COMPLETED | FAILED | TIMEOUT | CANCELLED

definition RequestStatus_member :: "string \<Rightarrow> RequestStatus option" where
  "RequestStatus_member name =
     (if name = ''STARTED'' then Some STARTED
      else if name = ''ROUTING'' then Some ROUTING
      else if name = ''PROCESSING'' then Some PROCESSING
      else if name = ''STREAMING'' then Some STREAMING
      else if name = ''COMPLETED'' then Some COMPLETED
      else if name = ''FAILED'' then Some FAILED
      else if name = ''TIMEOUT'' then Some TIMEOUT
      else if name = ''CANCELLED'' then Some CANCELLED
      else None)"

text \<open>The simplified enum \<open>StreamState\<close> of types/request-context.ts.\<close>

datatype StreamState = S_IDLE | S_STARTED | S_PROGRESS | S_COMPLETED | S_ERROR | S_PAUSED

datatype MetaValue = MUndefined | MNum rat | MStr string

record ErrorInfo =
  ei_name :: string
  ei_message :: string
  ei_stack :: "string option"

record TokenUsage =
  promptTokens :: int
  completionTokens :: int
  totalTokens :: int

record RequestContext =
  rc_requestId :: string
  rc_sessionId :: string
  rc_userId :: "string option"
  rc_traceId :: string
  rc_status :: "RequestStatus option"
  rc_startTime :: int
  rc_endTime :: "int option"
  rc_duration :: "rat option"
  rc_method :: string
  rc_url :: string
  rc_headers :: "(string \<times> string) list"
  rc_statusCode :: "int option"
  rc_error :: "ErrorInfo option"
  rc_streamState :: StreamState
  rc_tokenUsage :: TokenUsage
  rc_metadata :: "(string \<times> MetaValue) list"

text \<open>
  \<open>Partial<RequestContext>\<close>: a field is \<open>None\<close> when the object literal has no such
  key. For the fields that are optional in \<open>RequestContext\<close> the key can be present with
  the value \<open>undefined\<close> (\<open>Some None\<close>); the object spread copies it all the same.
\<close>

record PartialRequestContext =
  p_sessionId :: "string option"
  p_userId :: "string option"
  p_traceId :: "string option"
  p_status :: "RequestStatus option option"
  p_endTime :: "int option option"
  p_duration :: "rat option option"
  p_method :: "string option"
  p_url :: "string option"
  p_headers :: "(string \<times> string) list option"
  p_statusCode :: "int option option"
  p_error :: "ErrorInfo option option"
  p_streamState :: "StreamState option"
  p_tokenUsage :: "TokenUsage option"
  p_metadata :: "(string \<times> MetaValue) list option"

definition noUpdates :: PartialRequestContext where
  "noUpdates = \<lparr> p_sessionId = None, p_userId = None, p_traceId = None, p_status = None,
     p_endTime = None, p_duration = None, p_method = None, p_url = None, p_headers = None,
     p_statusCode = None, p_error = None, p_streamState = None, p_tokenUsage = None,
     p_metadata = None \<rparr>"

record RequestStatistics =
  totalRequests :: int
  activeRequests :: int
  completedRequests :: int
  failedRequests :: int
  averageResponseTime :: rat
  lastUpdated :: int

record RequestContextTracker =
  requestContexts :: "string \<rightharpoonup> RequestContext"
  statistics :: RequestStatistics

text \<open>The field initialisers of the class; \<open>t0\<close> is \<open>Date.now()\<close> at construction.\<close>

definition newRequestContextTracker :: "int \<Rightarrow> RequestContextTracker" where
  "newRequestContextTracker t0 =
     \<lparr> requestContexts = Map.empty,
       statistics = \<lparr> totalRequests = 0, activeRequests = 0, completedRequests = 0,
         failedRequests = 0, averageResponseTime = 0, lastUpdated = t0 \<rparr> \<rparr>"


definition getContext :: "string \<Rightarrow> RequestContextTracker \<Rightarrow> RequestContext option" where
  "getContext requestId tr = requestContexts tr requestId"

text \<open>The object spread \<open>{ ...context, ...updates }\<close>: every key of \<open>updates\<close> wins.\<close>

definition spread :: "RequestContext \<Rightarrow> PartialRequestContext \<Rightarrow> RequestContext" where
  "spread c u =
     \<lparr> rc_requestId = rc_requestId c,
       rc_sessionId = (case p_sessionId u of Some v \<Rightarrow> v | None \<Rightarrow> rc_sessionId c),
       rc_userId = (case p_userId u of Some v \<Rightarrow> Some v | None \<Rightarrow> rc_userId c),
       rc_traceId = (case p_traceId u of Some v \<Rightarrow> v | None \<Rightarrow> rc_traceId c),
       rc_status = (case p_status u of Some v \<Rightarrow> v | None \<Rightarrow> rc_status c),
       rc_startTime = rc_startTime c,
       rc_endTime = (case p_endTime u of Some v \<Rightarrow> v | None \<Rightarrow> rc_endTime c),
       rc_duration = (case p_duration u of Some v \<Rightarrow> v | None \<Rightarrow> rc_duration c),
       rc_method = (case p_method u of Some v \<Rightarrow> v | None \<Rightarrow> rc_method c),
       rc_url = (case p_url u of Some v \<Rightarrow> v | None \<Rightarrow> rc_url c),
       rc_headers = (case p_headers u of Some v \<Rightarrow> v | None \<Rightarrow> rc_headers c),
       rc_statusCode = (case p_statusCode u of Some v \<Rightarrow> v | None \<Rightarrow> rc_statusCode c),
       rc_error = (case p_error u of Some v \<Rightarrow> v | None \<Rightarrow> rc_error c),
       rc_streamState = (case p_streamState u of Some v \<Rightarrow> v | None \<Rightarrow> rc_streamState c),
       rc_tokenUsage = (case p_tokenUsage u of Some v \<Rightarrow> v | None \<Rightarrow> rc_tokenUsage c),
       rc_metadata = (case p_metadata u of Some v \<Rightarrow> v | None \<Rightarrow> rc_metadata c) \<rparr>"

definition updateContext ::
  "string \<Rightarrow> PartialRequestContext \<Rightarrow> RequestContextTracker
    \<Rightarrow> (error + unit) \<times> RequestContextTracker" where
  "updateContext requestId updates tr =
     (case requestContexts tr requestId of
        None \<Rightarrow> (Inl (Error (''Request context not found: '' @ requestId)), tr)
      | Some context \<Rightarrow>
          (Inr (), tr\<lparr> requestContexts := (requestContexts tr)(requestId \<mapsto> spread context updates) \<rparr>))"


definition updateAverageResponseTime :: "rat \<Rightarrow> RequestContextTracker \<Rightarrow> RequestContextTracker" where
  "updateAverageResponseTime newDuration tr =
     (let st = statistics tr;
          totalCompleted = completedRequests st + failedRequests st
      in if totalCompleted = 0
         then tr\<lparr> statistics := st\<lparr> averageResponseTime := newDuration \<rparr> \<rparr>
         else tr\<lparr> statistics := st\<lparr> averageResponseTime :=
                (averageResponseTime st * of_int (totalCompleted - 1) + newDuration)
                  / of_int totalCompleted \<rparr> \<rparr>)"

definition trackRequestEnd ::
  "int \<Rightarrow> string \<Rightarrow> int \<Rightarrow> rat \<Rightarrow> rat option \<Rightarrow> RequestContextTracker \<Rightarrow> RequestContextTracker" where
  "trackRequestEnd now requestId statusCode duration responseSize tr =
     (let endTime = now;
          updates = noUpdates\<lparr>
            p_status := Some (if statusCode \<ge> 400 then RequestStatus_member ''FAILED''
                              else RequestStatus_member ''COMPLETED''),
            p_endTime := Some (Some endTime),
            p_duration := Some (Some duration),
            p_statusCode := Some (Some statusCode),
            p_metadata := Some [(''responseSize'',
               (case responseSize of Some n \<Rightarrow> MNum n | None \<Rightarrow> MUndefined))] \<rparr>
      in case updateContext requestId updates tr of
           (Inr _, tr1) \<Rightarrow>
             (let st = statistics tr1;
                  st1 = st\<lparr> activeRequests := activeRequests st - 1 \<rparr>;
                  st2 = (if statusCode \<ge> 400
                         then st1\<lparr> failedRequests := failedRequests st1 + 1 \<rparr>
                         else st1\<lparr> completedRequests := completedRequests st1 + 1 \<rparr>)
              in updateAverageResponseTime duration (tr1\<lparr> statistics := st2 \<rparr>))
         | (Inl _, tr1) \<Rightarrow> tr1)"

definition trackRequestError ::
  "int \<Rightarrow> string \<Rightarrow> ErrorInfo \<Rightarrow> int option \<Rightarrow> RequestContextTracker \<Rightarrow> RequestContextTracker" where
  "trackRequestError now requestId err statusCode tr =
     (let endTime = now;
          duration = (case getContext requestId tr of
                        Some context \<Rightarrow> of_int (endTime - rc_startTime context)
                      | None \<Rightarrow> 0);
          updates = noUpdates\<lparr>
            p_status := Some (RequestStatus_member ''FAILED''),
            p_endTime := Some (Some endTime),
            p_duration := Some (Some duration),
            p_error := Some (Some \<lparr> ei_name = ei_name err, ei_message = ei_message err,
                                    ei_stack = ei_stack err \<rparr>),
            p_statusCode := Some statusCode \<rparr>
      in case updateContext requestId updates tr of
           (Inr _, tr1) \<Rightarrow>
             (let st = statistics tr1
              in tr1\<lparr> statistics := st\<lparr> activeRequests := activeRequests st - 1,
                                            failedRequests := failedRequests st + 1 \<rparr> \<rparr>)
         | (Inl _, tr1) \<Rightarrow> tr1)"


section \<open>ErrorLogger (enhanced/ErrorLogger.ts)\<close>

text \<open>
  A JavaScript \<open>Map\<close> keeps its keys in insertion order, and \<open>set\<close> on a key that
  is present replaces the value in place. \<open>errorCounts\<close> is such a map, modelled as an
  association list; \<open>mapGet\<close> and \<open>mapSet\<close> are \<open>Map.get\<close> and \<open>Map.set\<close>.
\<close>

fun mapGet :: "('k \<times> 'v) list \<Rightarrow> 'k \<Rightarrow> 'v option" where
  "mapGet [] k = None"
| "mapGet ((k', v') # m) k = (if k' = k then Some v' else mapGet m k)"

fun mapSet :: "'k \<Rightarrow> 'v \<Rightarrow> ('k \<times> 'v) list \<Rightarrow> ('k \<times> 'v) list" where
  "mapSet k v [] = [(k, v)]"
| "mapSet k v ((k', v') # m) = (if k' = k then (k, v) # m else (k', v') # mapSet k v m)"

record ErrorEntry =
  eh_timestamp :: int
  errorName :: string
  errorMessage :: string
  eh_context :: "(string \<times> MetaValue) list"

record ErrorLogger =
  errorCounts :: "(string \<times> int) list"
  errorHistory :: "ErrorEntry list"

definition maxHistorySize :: nat where
  "maxHistorySize = 1000"

definition newErrorLogger :: ErrorLogger where
  "newErrorLogger = \<lparr> errorCounts = [], errorHistory = [] \<rparr>"

text \<open>\<open>xs.slice(-n)\<close>: the last \<open>n\<close> elements, all of them when there are fewer.\<close>

definition sliceLast :: "nat \<Rightarrow> 'a list \<Rightarrow> 'a list" where
  "sliceLast n xs = drop (length xs - n) xs"

definition updateErrorCount :: "string \<Rightarrow> ErrorLogger \<Rightarrow> ErrorLogger" where
  "updateErrorCount name el =
     (let currentCount = (case mapGet (errorCounts el) name of Some c \<Rightarrow> c | None \<Rightarrow> 0)
      in el\<lparr> errorCounts := mapSet name (currentCount + 1) (errorCounts el) \<rparr>)"

definition addToErrorHistory :: "ErrorEntry \<Rightarrow> ErrorLogger \<Rightarrow> ErrorLogger" where
  "addToErrorHistory e el =
     (let pushed = errorHistory el @ [e]
      in if length pushed > maxHistorySize
         then el\<lparr> errorHistory := sliceLast maxHistorySize pushed \<rparr>
         else el\<lparr> errorHistory := pushed \<rparr>)"

text \<open>
  \<open>logError\<close>: the count is updated, then the history; the lines it then writes to the
  logger (also those of \<open>handleSpecialErrorTypes\<close>) leave the object as it is.
\<close>

definition toEntry :: "int \<times> ErrorInfo \<times> (string \<times> MetaValue) list \<Rightarrow> ErrorEntry" where
  "toEntry call = (case call of (timestamp, err, context) \<Rightarrow>
     \<lparr> eh_timestamp = timestamp, errorName = ei_name err, errorMessage = ei_message err,
       eh_context = context \<rparr>)"

definition logError ::
  "int \<Rightarrow> ErrorInfo \<Rightarrow> (string \<times> MetaValue) list \<Rightarrow> ErrorLogger \<Rightarrow> ErrorLogger" where
  "logError timestamp err context el =
     addToErrorHistory (toEntry (timestamp, err, context)) (updateErrorCount (ei_name err) el)"

text \<open>A sequence of \<open>logError\<close> calls, each with the clock value it reads.\<close>

definition logErrors ::
  "(int \<times> ErrorInfo \<times> (string \<times> MetaValue) list) list \<Rightarrow> ErrorLogger \<Rightarrow> ErrorLogger" where
  "logErrors calls el = foldl (\<lambda>l (timestamp, err, context). logError timestamp err context l) el calls"

record ErrorStatistics =
  totalErrors :: nat
  st_errorCounts :: "(string \<times> int) list"
  recentErrors :: "(int \<times> string \<times> string) list"
  topErrors :: "(string \<times> int) list"

text \<open>\<open>Array.prototype.sort\<close> is stable, as \<open>sort_key\<close> is; the comparator orders by count, largest first.\<close>

definition getErrorStatistics :: "ErrorLogger \<Rightarrow> ErrorStatistics" where
  "getErrorStatistics el =
     \<lparr> totalErrors = length (errorHistory el),
       st_errorCounts = errorCounts el,
       recentErrors = map (\<lambda>e. (eh_timestamp e, errorName e, errorMessage e))
                        (sliceLast 50 (errorHistory el)),
       topErrors = take 10 (sort_key (\<lambda>(name, count). - count) (errorCounts el)) \<rparr>"

section \<open>StreamStateTracker (tracking/StreamStateTracker.ts)\<close>

text \<open>
  The tracker's per-stream state (\<open>StreamState\<close> in the source, \<open>StreamStateData\<close>
  here, since the enum has the name) and progress. Byte and chunk counts are \<open>int\<close>;
  rates, percentages and remaining times are \<open>rat\<close>, the exact value of the source's
  floating-point quotient.
\<close>

record StreamError =
  se_timestamp :: int
  se_error :: ErrorInfo
  se_context :: "(string \<times> MetaValue) list option"

record StreamStateData =
  ss_id :: string
  ss_status :: StreamState
  ss_startTime :: int
  ss_contentType :: string
  ss_expectedSize :: "int option"
  ss_bytesReceived :: int
  ss_chunksReceived :: int
  ss_endTime :: "int option"
  ss_duration :: "int option"
  ss_error :: "StreamError option"
  ss_pauseTime :: "int option"
  ss_totalPauseDuration :: "int option"

record StreamProgress =
  sp_streamId :: string
  sp_startTime :: int
  lastUpdateTime :: int
  bytesTransferred :: int
  chunksTransferred :: int
  transferRate :: rat
  estimatedTimeRemaining :: "rat option"
  percentage :: rat

record StreamStateTracker =
  activeStreams :: "string \<rightharpoonup> StreamStateData"
  streamProgress :: "string \<rightharpoonup> StreamProgress"
  streamErrors :: "string \<rightharpoonup> StreamError list"
  metrics :: "string \<rightharpoonup> (string \<times> rat) list"

definition newStreamStateTracker :: StreamStateTracker where
  "newStreamStateTracker =
     \<lparr> activeStreams = Map.empty, streamProgress = Map.empty, streamErrors = Map.empty,
       metrics = Map.empty \<rparr>"

definition recordMetric :: "string \<Rightarrow> string \<Rightarrow> rat \<Rightarrow> StreamStateTracker \<Rightarrow> StreamStateTracker" where
  "recordMetric streamId name v tr =
     (let streamMetrics = (case metrics tr streamId of Some m \<Rightarrow> m | None \<Rightarrow> [])
      in tr\<lparr> metrics := (metrics tr)(streamId \<mapsto> mapSet name v streamMetrics) \<rparr>)"

text \<open>\<open>calculateEstimatedTime\<close> reads the clock itself: \<open>now\<close> is that reading.\<close>

definition calculateEstimatedTime :: "int \<Rightarrow> int \<Rightarrow> int option \<Rightarrow> int \<Rightarrow> rat option" where
  "calculateEstimatedTime now bytes totalBytes startTime =
     (case totalBytes of
        None \<Rightarrow> None
      | Some tb \<Rightarrow>
          if tb = 0 \<or> tb \<le> 0 \<or> bytes \<le> 0 then None
          else (let elapsed = now - startTime;
                    remainingBytes = tb - bytes
                in if elapsed \<le> 0 \<or> remainingBytes \<le> 0 then Some 0
                   else (let rate = of_int bytes / (of_int elapsed / 1000)
                         in if rate > 0 then Some (of_int remainingBytes / rate) else None)))"

definition startStream ::
  "int \<Rightarrow> string \<Rightarrow> string \<Rightarrow> int option \<Rightarrow> StreamStateTracker
    \<Rightarrow> (error + unit) \<times> StreamStateTracker" where
  "startStream now streamId contentType expectedSize tr =
     (let startTime = now;
          state = \<lparr> ss_id = streamId, ss_status = S_STARTED, ss_startTime = startTime,
                    ss_contentType = contentType, ss_expectedSize = expectedSize,
                    ss_bytesReceived = 0, ss_chunksReceived = 0, ss_endTime = None,
                    ss_duration = None, ss_error = None, ss_pauseTime = None,
                    ss_totalPauseDuration = None \<rparr>;
          progress = \<lparr> sp_streamId = streamId, sp_startTime = startTime,
                       lastUpdateTime = startTime, bytesTransferred = 0, chunksTransferred = 0,
                       transferRate = 0,
                       estimatedTimeRemaining =
                         (case expectedSize of
                            None \<Rightarrow> None
                          | Some e \<Rightarrow> if e = 0 then None
                                      else calculateEstimatedTime now 0 expectedSize startTime),
                       percentage = 0 \<rparr>
      in (Inr (), tr\<lparr> activeStreams := (activeStreams tr)(streamId \<mapsto> state),
                       streamProgress := (streamProgress tr)(streamId \<mapsto> progress),
                       streamErrors := (streamErrors tr)(streamId \<mapsto> []) \<rparr>))"

text \<open>
  \<open>updateStreamProgress\<close>: \<open>now\<close> is its own \<open>Date.now()\<close>, \<open>now2\<close> the later
  reading inside \<open>calculateEstimatedTime\<close>. The optional \<open>data\<close> argument is not used
  by the source.
\<close>

definition updateStreamProgress ::
  "int \<Rightarrow> int \<Rightarrow> string \<Rightarrow> int \<Rightarrow> int \<Rightarrow> StreamStateTracker
    \<Rightarrow> (error + unit) \<times> StreamStateTracker" where
  "updateStreamProgress now now2 streamId bytesReceived chunksReceived tr =
     (case (activeStreams tr streamId, streamProgress tr streamId) of
        (Some state, Some progress) \<Rightarrow>
          (let timeElapsed = now - sp_startTime progress;
               bytesDelta = bytesReceived - bytesTransferred progress;
               state1 = state\<lparr> ss_bytesReceived := bytesReceived,
                               ss_chunksReceived := chunksReceived,
                               ss_status := S_PROGRESS \<rparr>;
               progress1 = progress\<lparr>
                 bytesTransferred := bytesReceived,
                 chunksTransferred := chunksReceived,
                 lastUpdateTime := now,
                 transferRate := (if timeElapsed > 0
                                  then of_int bytesDelta / (of_int timeElapsed / 1000) else 0),
                 percentage := (case ss_expectedSize state of
                                  None \<Rightarrow> 0
                                | Some e \<Rightarrow> if e = 0 then 0
                                            else of_int bytesReceived / of_int e * 100),
                 estimatedTimeRemaining :=
                   calculateEstimatedTime now2 bytesReceived (ss_expectedSize state)
                     (sp_startTime progress) \<rparr>;
               tr1 = tr\<lparr> activeStreams := (activeStreams tr)(streamId \<mapsto> state1),
                          streamProgress := (streamProgress tr)(streamId \<mapsto> progress1) \<rparr>
           in (Inr (),
               recordMetric streamId ''transfer_rate'' (transferRate progress1)
                 (recordMetric streamId ''chunks_received'' (of_int chunksReceived)
                   (recordMetric streamId ''bytes_received'' (of_int bytesReceived) tr1))))
      | _ \<Rightarrow> (Inl (Error (''Stream not found: '' @ streamId)), tr))"

section \<open>Stream entries and the output streams (types/stream-entry.ts, streams/)\<close>

record Rotation =
  rot_size :: "string option"
  rot_interval :: "string option"

record StreamEntry =
  en_name :: string
  en_type :: string
  en_level :: string
  en_path :: "string option"
  en_filePath :: "string option"
  en_rotation :: "Rotation option"
  en_autoEnd :: "bool option"
  en_stderr :: "bool option"
  en_endpoint :: "string option"

text \<open>
  The destination handle (a Node.js \<open>Writable\<close>): the process's standard output or
  error channel, a file opened for appending, or a pino-roll stream with its size and
  interval.
\<close>

datatype Writable = Stdout | Stderr | FileStream string | RollStream string string string

record MultiStreamRes =
  ms_stream :: Writable
  ms_level :: string
  ms_autoEnd :: bool

text \<open>
  What the code cannot decide by itself: \<open>fsOk path\<close> tells whether creating the
  directory and opening \<open>path\<close> succeeds (the file-system calls throw otherwise),
  \<open>pinoOk level\<close> whether \<open>pino\<close> accepts the level (it throws on a level it does not
  know), and \<open>sinkError\<close> is the exception the logger throws on a write, if any.
\<close>

record Env =
  fsOk :: "string \<Rightarrow> bool"
  pinoOk :: "string \<Rightarrow> bool"
  sinkError :: "error option"

text \<open>
  Each stream class has \<open>initialize\<close>, which returns a Result and sets the field
  \<open>stream\<close> on success, and \<open>getStream\<close>, which throws while the field is
  \<open>null\<close>. The model of \<open>initialize\<close> returns the Result and the field.
\<close>

definition ConsoleStream_initialize :: "StreamEntry \<Rightarrow> (error + unit) \<times> Writable option" where
  "ConsoleStream_initialize config =
     (Inr (), Some (if en_stderr config = Some True then Stderr else Stdout))"

definition DestinationStream_initialize ::
  "Env \<Rightarrow> StreamEntry \<Rightarrow> (error + unit) \<times> Writable option" where
  "DestinationStream_initialize env config =
     (if \<not> truthy (en_path config)
      then (Inl (Error ''File path is required for destination stream''), None)
      else if \<not> fsOk env (the (en_path config))
      then (Inl (Error ''file system error''), None)
      else (Inr (), Some (FileStream (the (en_path config)))))"

definition PinoRollStream_initialize ::
  "Env \<Rightarrow> StreamEntry \<Rightarrow> (error + unit) \<times> Writable option" where
  "PinoRollStream_initialize env config =
     (let filePath = (if truthy (en_path config) then en_path config else en_filePath config)
      in if \<not> truthy filePath
         then (Inl (Error ''File path is required for rotation stream''), None)
         else if \<not> fsOk env (the filePath)
         then (Inl (Error ''file system error''), None)
         else (let rollSize = (case en_rotation config of
                                 Some r \<Rightarrow> if truthy (rot_size r) then the (rot_size r) else ''10M''
                               | None \<Rightarrow> ''10M'');
                   rollInterval = (case en_rotation config of
                                 Some r \<Rightarrow> if truthy (rot_interval r) then the (rot_interval r) else ''1d''
                               | None \<Rightarrow> ''1d'')
               in (Inr (), Some (RollStream (the filePath) rollSize rollInterval))))"

definition getStream :: "Writable option \<Rightarrow> error + Writable" where
  "getStream stream =
     (case stream of
        None \<Rightarrow> Inl (Error ''Stream not initialized. Call initialize() first.'')
      | Some w \<Rightarrow> Inr w)"

section \<open>StreamManager (streams/StreamManager.ts)\<close>

record LogConfig =
  lc_level :: string
  lc_timestamp :: bool
  lc_serviceName :: string
  lc_version :: string
  lc_environment :: string
  lc_streams :: "StreamEntry list"

text \<open>
  \<open>streams\<close> is a \<open>Map<string, MultiStreamRes>\<close> (insertion-ordered, so an
  association list), \<open>activeStreams\<close> a \<open>Set<string>\<close> of stream names.
\<close>

record StreamManager =
  streams :: "(string \<times> MultiStreamRes) list"
  sm_activeStreams :: "string set"
  sm_config :: LogConfig

definition newStreamManager :: "LogConfig \<Rightarrow> StreamManager" where
  "newStreamManager config = \<lparr> streams = [], sm_activeStreams = {}, sm_config = config \<rparr>"

definition mapDelete :: "'k \<Rightarrow> ('k \<times> 'v) list \<Rightarrow> ('k \<times> 'v) list" where
  "mapDelete k m = filter (\<lambda>kv. fst kv \<noteq> k) m"

text \<open>
  \<open>createStream\<close> does not look at the Result of the stream's \<open>initialize\<close>; a failed
  one leaves the field \<open>null\<close>, \<open>getStream\<close> throws, and the \<open>catch\<close> returns that
  exception as the error.
\<close>

definition createStream :: "Env \<Rightarrow> StreamEntry \<Rightarrow> error + MultiStreamRes" where
  "createStream env entry =
     (let made =
        (if en_type entry = ''file'' then
           (if en_rotation entry \<noteq> None
            then getStream (snd (PinoRollStream_initialize env entry))
            else getStream (snd (DestinationStream_initialize env entry)))
         else if en_type entry = ''console'' then
           getStream (snd (ConsoleStream_initialize entry))
         else Inl (Error (''Unsupported stream type: '' @ en_type entry)))
      in case made of
           Inl e \<Rightarrow> Inl e
         | Inr stream \<Rightarrow>
             Inr \<lparr> ms_stream = stream, ms_level = en_level entry,
                   ms_autoEnd = (case en_autoEnd entry of Some b \<Rightarrow> b | None \<Rightarrow> True) \<rparr>)"

fun createDefaultStreams_loop :: "Env \<Rightarrow> StreamEntry list \<Rightarrow> StreamManager \<Rightarrow> StreamManager" where
  "createDefaultStreams_loop env [] sm = sm"
| "createDefaultStreams_loop env (streamConfig # rest) sm =
     (case createStream env streamConfig of
        Inr stream \<Rightarrow>
          createDefaultStreams_loop env rest
            (sm\<lparr> streams := mapSet (en_name streamConfig) stream (streams sm),
                  sm_activeStreams := insert (en_name streamConfig) (sm_activeStreams sm) \<rparr>)
      | Inl e \<Rightarrow> createDefaultStreams_loop env rest sm)"

definition createDefaultStreams :: "Env \<Rightarrow> StreamManager \<Rightarrow> StreamManager" where
  "createDefaultStreams env sm = createDefaultStreams_loop env (lc_streams (sm_config sm)) sm"

definition StreamManager_initialize :: "Env \<Rightarrow> StreamManager \<Rightarrow> (error + unit) \<times> StreamManager" where
  "StreamManager_initialize env sm = (Inr (), createDefaultStreams env sm)"

text \<open>\<open>stream.level || 'info'\<close>, then membership in the set of active stream names.\<close>

definition getMultiStreams :: "StreamManager \<Rightarrow> MultiStreamRes list" where
  "getMultiStreams sm =
     filter (\<lambda>stream. (if ms_level stream \<noteq> [] then ms_level stream else ''info'')
                        \<in> sm_activeStreams sm)
       (map snd (streams sm))"

definition addStream :: "Env \<Rightarrow> StreamEntry \<Rightarrow> StreamManager \<Rightarrow> (error + unit) \<times> StreamManager" where
  "addStream env entry sm =
     (case createStream env entry of
        Inr stream \<Rightarrow>
          (Inr (), sm\<lparr> streams := mapSet (en_name entry) stream (streams sm),
                        sm_activeStreams := insert (en_name entry) (sm_activeStreams sm) \<rparr>)
      | Inl e \<Rightarrow> (Inl e, sm))"

definition removeStream :: "string \<Rightarrow> StreamManager \<Rightarrow> (error + unit) \<times> StreamManager" where
  "removeStream name sm =
     (case mapGet (streams sm) name of
        Some stream \<Rightarrow>
          (Inr (), sm\<lparr> streams := mapDelete name (streams sm),
                        sm_activeStreams := sm_activeStreams sm - {name} \<rparr>)
      | None \<Rightarrow> (Inl (Error (''Stream not found: '' @ name)), sm))"

definition getStreamStatus :: "string \<Rightarrow> StreamManager \<Rightarrow> error + (bool \<times> string)" where
  "getStreamStatus name sm =
     (case mapGet (streams sm) name of
        Some stream \<Rightarrow> Inr (name \<in> sm_activeStreams sm, ms_level stream)
      | None \<Rightarrow> Inl (Error (''Stream not found: '' @ name)))"

definition StreamManager_cleanup :: "StreamManager \<Rightarrow> StreamManager" where
  "StreamManager_cleanup sm = sm\<lparr> streams := [], sm_activeStreams := {} \<rparr>"

definition StreamManager_updateConfig :: "LogConfig \<Rightarrow> StreamManager \<Rightarrow> StreamManager" where
  "StreamManager_updateConfig config sm = sm\<lparr> sm_config := config \<rparr>"

section \<open>ConfigFileIntegration (config/ConfigFileIntegration.ts)\<close>

text \<open>
  A configuration as a source carries it. The interface declares \<open>config: LogConfig\<close>,
  and \<open>mergeConfigs\<close> guards every field against a missing value, so each field is
  optional here: \<open>None\<close> is \<open>undefined\<close>, the field the source does not define.
  The same type stands for \<open>Partial<LogConfig>\<close> and for \<open>EnhancedLoggingConfig\<close>,
  of which only these fields are read.
\<close>

record PartialLogConfig =
  pl_level :: "string option"
  pl_timestamp :: "bool option"
  pl_serviceName :: "string option"
  pl_version :: "string option"
  pl_environment :: "string option"
  pl_streams :: "StreamEntry list option"

definition fullConfig :: "LogConfig \<Rightarrow> PartialLogConfig" where
  "fullConfig c =
     \<lparr> pl_level = Some (lc_level c), pl_timestamp = Some (lc_timestamp c),
       pl_serviceName = Some (lc_serviceName c), pl_version = Some (lc_version c),
       pl_environment = Some (lc_environment c), pl_streams = Some (lc_streams c) \<rparr>"

text \<open>The enum \<open>ConfigPriority\<close>: the environment has the highest priority, the default the lowest.\<close>

definition ENVIRONMENT :: int where "ENVIRONMENT = 1"
definition CONFIG_FILE :: int where "CONFIG_FILE = 2"
definition PRESET :: int where "PRESET = 3"
definition DEFAULT :: int where "DEFAULT = 4"

record ConfigSource =
  cs_type :: string
  cs_priority :: int
  cs_name :: "string option"
  cs_config :: PartialLogConfig
  cs_timestamp :: int

text \<open>The variables of \<open>process.env\<close> the integration reads.\<close>

record ProcessEnv =
  LOG_LEVEL :: "string option"
  LOG_TIMESTAMP :: "string option"
  LOG_SERVICE_NAME :: "string option"
  LOG_VERSION :: "string option"
  NODE_ENV :: "string option"
  LOG_STREAMS :: "string option"

text \<open>\<open>a || b\<close> on an optional string.\<close>

definition orElse :: "string option \<Rightarrow> string \<Rightarrow> string" where
  "orElse a b = (if truthy a then the a else b)"

text \<open>
  The loader of the configuration file (EnhancedConfigLoader), as far as
  \<open>collectConfigSources\<close> uses it: the Results of \<open>getPreset\<close> and
  \<open>getLoggingConfig\<close>.
\<close>

record ConfigLoader =
  getPreset :: "string \<Rightarrow> error + PartialLogConfig"
  getLoggingConfig :: "error + PartialLogConfig"

definition defaultConsole :: StreamEntry where
  "defaultConsole =
     \<lparr> en_name = ''default-console'', en_type = ''console'', en_level = ''info'',
       en_path = None, en_filePath = None, en_rotation = None, en_autoEnd = None,
       en_stderr = None, en_endpoint = None \<rparr>"

definition convertEnhancedToLogConfig :: "ProcessEnv \<Rightarrow> PartialLogConfig \<Rightarrow> PartialLogConfig" where
  "convertEnhancedToLogConfig penv enhancedConfig =
     \<lparr> pl_level = Some (orElse (pl_level enhancedConfig) ''info''),
       pl_timestamp = Some (pl_timestamp enhancedConfig \<noteq> Some False),
       pl_serviceName = Some (orElse (pl_serviceName enhancedConfig) ''claude-code-router''),
       pl_version = Some (orElse (pl_version enhancedConfig) ''1.0.0''),
       pl_environment = Some (orElse (pl_environment enhancedConfig)
                                (orElse (NODE_ENV penv) ''development'')),
       pl_streams = Some (case pl_streams enhancedConfig of Some ss \<Rightarrow> ss
                          | None \<Rightarrow> [defaultConsole]) \<rparr>"

text \<open>
  \<open>loadEnvironmentConfig\<close>: \<open>parse\<close> is \<open>JSON.parse\<close> on \<open>LOG_STREAMS\<close>,
  \<open>None\<close> when it throws.
\<close>

definition loadEnvironmentConfig ::
  "(string \<Rightarrow> StreamEntry list option) \<Rightarrow> ProcessEnv \<Rightarrow> PartialLogConfig option" where
  "loadEnvironmentConfig parse penv =
     Some \<lparr> pl_level = Some (orElse (LOG_LEVEL penv) ''info''),
            pl_timestamp = Some (LOG_TIMESTAMP penv \<noteq> Some ''false''),
            pl_serviceName = Some (orElse (LOG_SERVICE_NAME penv) ''claude-code-router''),
            pl_version = Some (orElse (LOG_VERSION penv) ''1.0.0''),
            pl_environment = Some (orElse (NODE_ENV penv) ''development''),
            pl_streams = Some (if truthy (LOG_STREAMS penv)
                               then (case parse (the (LOG_STREAMS penv)) of
                                       Some ss \<Rightarrow> ss | None \<Rightarrow> [])
                               else []) \<rparr>"

text \<open>
  \<open>collectConfigSources\<close>: \<open>defaultConfig\<close> is what
  \<open>logConfigManager.getDefaultConfig()\<close> returns. The sources are pushed in the order
  default, preset, file, environment and then sorted by ascending priority number
  (\<open>Array.prototype.sort\<close> is stable, as \<open>sort_key\<close> is). The warnings it pushes
  are not modelled.
\<close>

definition collectConfigSources ::
  "int \<Rightarrow> (string \<Rightarrow> StreamEntry list option) \<Rightarrow> ProcessEnv \<Rightarrow> PartialLogConfig
    \<Rightarrow> ConfigLoader option \<Rightarrow> string option \<Rightarrow> ConfigSource list" where
  "collectConfigSources now parse penv defaultConfig configLoader presetName =
     (let s1 = [\<lparr> cs_type = ''default'', cs_priority = DEFAULT, cs_name = None,
                   cs_config = defaultConfig, cs_timestamp = now \<rparr>];
          s2 = (case configLoader of
                  Some loader \<Rightarrow>
                    if truthy presetName then
                      (case getPreset loader (the presetName) of
                         Inr presetValue \<Rightarrow>
                           s1 @ [\<lparr> cs_type = ''preset'', cs_priority = PRESET, cs_name = presetName,
                                    cs_config = convertEnhancedToLogConfig penv presetValue,
                                    cs_timestamp = now \<rparr>]
                       | Inl e \<Rightarrow> s1)
                    else s1
                | None \<Rightarrow> s1);
          s3 = (case configLoader of
                  Some loader \<Rightarrow>
                    (case getLoggingConfig loader of
                       Inr configValue \<Rightarrow>
                         s2 @ [\<lparr> cs_type = ''config-file'', cs_priority = CONFIG_FILE,
                                  cs_name = None, cs_config = configValue, cs_timestamp = now \<rparr>]
                     | Inl e \<Rightarrow> s2)
                | None \<Rightarrow> s2);
          s4 = (case loadEnvironmentConfig parse penv of
                  Some envConfig \<Rightarrow>
                    s3 @ [\<lparr> cs_type = ''environment'', cs_priority = ENVIRONMENT, cs_name = None,
                             cs_config = envConfig, cs_timestamp = now \<rparr>]
                | None \<Rightarrow> s3)
      in sort_key cs_priority s4)"

text \<open>
  \<open>mergeConfigs\<close>. The accumulator is the merged configuration with the arrays
  \<open>mergedPaths\<close> and \<open>conflicts\<close> the caller passes in (the parameter
  \<open>warnings\<close> is never written). The inner loop over a source's streams tests the
  names against \<open>existingStreams\<close>, the set built before the loop. The assignment
  \<open>mergedConfig.streams = sourceConfig.streams\<close> shares the source's array, so the
  later pushes also show in that source; the merged configuration is the same either way.
\<close>

fun mergeStreams_loop ::
  "string set \<Rightarrow> string \<Rightarrow> StreamEntry list
    \<Rightarrow> StreamEntry list \<times> string list \<times> string list
    \<Rightarrow> StreamEntry list \<times> string list \<times> string list" where
  "mergeStreams_loop existingStreams sourceType [] acc = acc"
| "mergeStreams_loop existingStreams sourceType (stream # rest) (ss, mergedPaths, conflicts) =
     (if en_name stream \<in> existingStreams
      then mergeStreams_loop existingStreams sourceType rest
             (ss, mergedPaths,
              conflicts @ [''Stream '' @ [CHR 0x27] @ en_name stream @ [CHR 0x27]
                           @ '' conflict from '' @ sourceType])
      else mergeStreams_loop existingStreams sourceType rest
             (ss @ [stream],
              mergedPaths @ [''stream '' @ [CHR 0x27] @ en_name stream @ [CHR 0x27]
                             @ '' from '' @ sourceType],
              conflicts))"

definition mergeSource ::
  "ConfigSource \<Rightarrow> LogConfig \<times> string list \<times> string list
    \<Rightarrow> LogConfig \<times> string list \<times> string list" where
  "mergeSource source acc =
     (case acc of (m0, paths0, conflicts0) \<Rightarrow>
       (let sourceConfig = cs_config source;
            sourceType = cs_type source;
            (m1, paths1) =
              (if truthy (pl_level sourceConfig) \<and> the (pl_level sourceConfig) \<noteq> lc_level m0
               then (m0\<lparr> lc_level := the (pl_level sourceConfig) \<rparr>,
                     paths0 @ [''level from '' @ sourceType])
               else (m0, paths0));
            (m2, paths2) =
              (if pl_timestamp sourceConfig \<noteq> None
                  \<and> the (pl_timestamp sourceConfig) \<noteq> lc_timestamp m1
               then (m1\<lparr> lc_timestamp := the (pl_timestamp sourceConfig) \<rparr>,
                     paths1 @ [''timestamp from '' @ sourceType])
               else (m1, paths1));
            (m3, paths3) =
              (if truthy (pl_serviceName sourceConfig)
                  \<and> the (pl_serviceName sourceConfig) \<noteq> lc_serviceName m2
               then (m2\<lparr> lc_serviceName := the (pl_serviceName sourceConfig) \<rparr>,
                     paths2 @ [''serviceName from '' @ sourceType])
               else (m2, paths2));
            (m4, paths4) =
              (if truthy (pl_version sourceConfig)
                  \<and> the (pl_version sourceConfig) \<noteq> lc_version m3
               then (m3\<lparr> lc_version := the (pl_version sourceConfig) \<rparr>,
                     paths3 @ [''version from '' @ sourceType])
               else (m3, paths3));
            (m5, paths5) =
              (if truthy (pl_environment sourceConfig)
                  \<and> the (pl_environment sourceConfig) \<noteq> lc_environment m4
               then (m4\<lparr> lc_environment := the (pl_environment sourceConfig) \<rparr>,
                     paths4 @ [''environment from '' @ sourceType])
               else (m4, paths4))
        in case pl_streams sourceConfig of
             None \<Rightarrow> (m5, paths5, conflicts0)
           | Some sourceStreams \<Rightarrow>
               if length sourceStreams > 0 then
                 (if length (lc_streams m5) = 0
                  then (m5\<lparr> lc_streams := sourceStreams \<rparr>,
                        paths5 @ [''streams from '' @ sourceType], conflicts0)
                  else (case mergeStreams_loop (set (map en_name (lc_streams m5))) sourceType
                               sourceStreams (lc_streams m5, paths5, conflicts0) of
                          (ss, paths6, conflicts6) \<Rightarrow> (m5\<lparr> lc_streams := ss \<rparr>, paths6, conflicts6)))
               else (m5, paths5, conflicts0)))"

definition mergeConfigs ::
  "ProcessEnv \<Rightarrow> ConfigSource list \<Rightarrow> string list \<Rightarrow> string list
    \<Rightarrow> LogConfig \<times> string list \<times> string list" where
  "mergeConfigs penv sources mergedPaths conflicts =
     foldl (\<lambda>acc source. mergeSource source acc)
       (\<lparr> lc_level = ''info'', lc_timestamp = True, lc_serviceName = ''claude-code-router'',
          lc_version = ''1.0.0'', lc_environment = orElse (NODE_ENV penv) ''development'',
          lc_streams = [] \<rparr>,
        mergedPaths, conflicts)
       sources"

record ConfigIntegrationResult =
  finalConfig :: LogConfig
  cir_sources :: "ConfigSource list"
  cir_mergedPaths :: "string list"
  cir_conflicts :: "string list"

text \<open>
  \<open>integrateConfig\<close>: one resolution pass. \<open>applyConfig\<close> is
  \<open>logConfigManager.updateConfig\<close>, the step that hands the merged configuration to the
  configuration manager.
\<close>

definition integrateConfig ::
  "(LogConfig \<Rightarrow> error + unit) \<Rightarrow> int \<Rightarrow> (string \<Rightarrow> StreamEntry list option) \<Rightarrow> ProcessEnv
    \<Rightarrow> PartialLogConfig \<Rightarrow> ConfigLoader option \<Rightarrow> string option
    \<Rightarrow> error + ConfigIntegrationResult" where
  "integrateConfig applyConfig now parse penv defaultConfig configLoader presetName =
     (let sources = collectConfigSources now parse penv defaultConfig configLoader presetName
      in case mergeConfigs penv sources [] [] of
           (merged, mergedPaths, conflicts) \<Rightarrow>
             (case applyConfig merged of
                Inl e \<Rightarrow> Inl e
              | Inr _ \<Rightarrow> Inr \<lparr> finalConfig = merged, cir_sources = sources,
                               cir_mergedPaths = mergedPaths, cir_conflicts = conflicts \<rparr>))"

section \<open>LogManager (LogManager.ts)\<close>

text \<open>
  The class LogConfigManager that LogManager imports (\<open>./config/LogConfigManager\<close>,
  with \<open>initialize\<close>, \<open>getConfig\<close> and \<open>updateConfig\<close> returning a Result) is
  not among the sources; only its test is. Its state is the type variable \<open>'cm\<close> and
  its three methods are the fields of \<open>ConfigManagerOps\<close>, a parameter of the
  LogManager methods that call them.
\<close>

record 'cm ConfigManagerOps =
  cmInitialize :: "'cm \<Rightarrow> (error + unit) \<times> 'cm"
  cmGetConfig :: "'cm \<Rightarrow> LogConfig"
  cmUpdateConfig :: "PartialLogConfig \<Rightarrow> 'cm \<Rightarrow> (error + unit) \<times> 'cm"

text \<open>The pino logger: its options and the destinations \<open>pino.multistream\<close> was given.\<close>

record Logger =
  lg_level :: string
  lg_service :: string
  lg_version :: string
  lg_environment :: string
  lg_timestamp :: bool
  lg_streams :: "MultiStreamRes list"

definition pino :: "Env \<Rightarrow> LogConfig \<Rightarrow> MultiStreamRes list \<Rightarrow> error + Logger" where
  "pino env config multiStreams =
     (if pinoOk env (lc_level config)
      then Inr \<lparr> lg_level = lc_level config, lg_service = lc_serviceName config,
                 lg_version = lc_version config, lg_environment = lc_environment config,
                 lg_timestamp = lc_timestamp config, lg_streams = multiStreams \<rparr>
      else Inl (Error (''default level:'' @ lc_level config @ '' must be included in custom levels'')))"

text \<open>
  The trackers' \<open>initialize\<close> write one line to the logger inside \<open>try\<close>; an
  exception of the sink becomes the error result. ErrorLogger catches it itself.
\<close>

definition RequestContextTracker_initialize :: "Env \<Rightarrow> error + unit" where
  "RequestContextTracker_initialize env = (case sinkError env of None \<Rightarrow> Inr () | Some e \<Rightarrow> Inl e)"

definition StreamStateTracker_initialize :: "Env \<Rightarrow> error + unit" where
  "StreamStateTracker_initialize env = (case sinkError env of None \<Rightarrow> Inr () | Some e \<Rightarrow> Inl e)"

definition ErrorLogger_initialize :: "Env \<Rightarrow> error + unit" where
  "ErrorLogger_initialize env = Inr ()"

record 'cm LogManager =
  configManager :: 'cm
  streamManager :: StreamManager
  requestTracker :: "RequestContextTracker option"
  streamTracker :: "StreamStateTracker option"
  errorLogger :: "ErrorLogger option"
  logger :: "Logger option"
  initialized :: bool

definition newLogManager :: "'cm ConfigManagerOps \<Rightarrow> 'cm \<Rightarrow> 'cm LogManager" where
  "newLogManager ops cm =
     \<lparr> configManager = cm, streamManager = newStreamManager (cmGetConfig ops cm),
       requestTracker = None, streamTracker = None, errorLogger = None, logger = None,
       initialized = False \<rparr>"

text \<open>
  \<open>initialize\<close>, stage by stage as the source runs them; each early \<open>return Err\<close>
  keeps what the stages before it have assigned. \<open>now\<close> is the clock the new
  RequestContextTracker reads for \<open>lastUpdated\<close>.
\<close>

definition LogManager_initialize ::
  "'cm ConfigManagerOps \<Rightarrow> Env \<Rightarrow> int \<Rightarrow> 'cm LogManager \<Rightarrow> (error + unit) \<times> 'cm LogManager" where
  "LogManager_initialize ops env now lm =
     (if initialized lm then (Inr (), lm)
      else case cmInitialize ops (configManager lm) of
        (Inl e, cm1) \<Rightarrow> (Inl e, lm\<lparr> configManager := cm1 \<rparr>)
      | (Inr _, cm1) \<Rightarrow>
         (case StreamManager_initialize env (streamManager lm) of
            (Inl e, sm1) \<Rightarrow> (Inl e, lm\<lparr> configManager := cm1, streamManager := sm1 \<rparr>)
          | (Inr _, sm1) \<Rightarrow>
             (let lm1 = lm\<lparr> configManager := cm1, streamManager := sm1 \<rparr>;
                  config = cmGetConfig ops cm1;
                  multiStreams = getMultiStreams sm1
              in case pino env config multiStreams of
                   Inl e \<Rightarrow> (Inl e, lm1)
                 | Inr lg \<Rightarrow>
                    (let lm2 = lm1\<lparr> logger := Some lg,
                                     requestTracker := Some (newRequestContextTracker now) \<rparr>
                     in case RequestContextTracker_initialize env of
                          Inl e \<Rightarrow> (Inl e, lm2)
                        | Inr _ \<Rightarrow>
                           (let lm3 = lm2\<lparr> streamTracker := Some newStreamStateTracker \<rparr>
                            in case StreamStateTracker_initialize env of
                                 Inl e \<Rightarrow> (Inl e, lm3)
                               | Inr _ \<Rightarrow>
                                  (let lm4 = lm3\<lparr> errorLogger := Some newErrorLogger \<rparr>
                                   in case ErrorLogger_initialize env of
                                        Inl e \<Rightarrow> (Inl e, lm4)
                                      | Inr _ \<Rightarrow> (Inr (), lm4\<lparr> initialized := True \<rparr>)))))))"

definition LogManager_updateConfig ::
  "'cm ConfigManagerOps \<Rightarrow> Env \<Rightarrow> PartialLogConfig \<Rightarrow> 'cm LogManager
    \<Rightarrow> (error + unit) \<times> 'cm LogManager" where
  "LogManager_updateConfig ops env newConfig lm =
     (case cmUpdateConfig ops newConfig (configManager lm) of
        (Inl e, cm1) \<Rightarrow> (Inl e, lm\<lparr> configManager := cm1 \<rparr>)
      | (Inr _, cm1) \<Rightarrow>
         (let sm1 = StreamManager_updateConfig (cmGetConfig ops cm1) (streamManager lm);
              sm2 = StreamManager_cleanup sm1
          in case StreamManager_initialize env sm2 of
               (Inl e, sm3) \<Rightarrow> (Inl e, lm\<lparr> configManager := cm1, streamManager := sm3 \<rparr>)
             | (Inr _, sm3) \<Rightarrow>
                (let lm1 = lm\<lparr> configManager := cm1, streamManager := sm3 \<rparr>;
                     config = cmGetConfig ops cm1;
                     multiStreams = getMultiStreams sm3
                 in case pino env config multiStreams of
                      Inl e \<Rightarrow> (Inl e, lm1)
                    | Inr lg \<Rightarrow> (Inr (), lm1\<lparr> logger := Some lg \<rparr>))))"

text \<open>
  Modelled from the spec: the levels a configuration may name (section 4.1: the canonical
  ordered levels trace, debug, info, warn, error, fatal, silent).
\<close>

definition canonicalLevels :: "string list" where
  "canonicalLevels = [''trace'', ''debug'', ''info'', ''warn'', ''error'', ''fatal'', ''silent'']"

text \<open>
  Modelled from the spec: the validation of LogConfigManager, whose class is not among
  the sources. Section 4.1: the severity threshold must be one of the canonical levels,
  any stream of kind file must declare a path, any stream of kind network must declare
  an endpoint; section 7 adds duplicate stream names to the validation errors.
\<close>

definition validateConfig :: "LogConfig \<Rightarrow> bool" where
  "validateConfig c =
     (lc_level c \<in> set canonicalLevels
      \<and> list_all (\<lambda>s. en_type s = ''file'' \<longrightarrow> truthy (en_path s)) (lc_streams c)
      \<and> list_all (\<lambda>s. en_type s = ''network'' \<longrightarrow> truthy (en_endpoint s)) (lc_streams c)
      \<and> distinct (map en_name (lc_streams c)))"

text \<open>
  Modelled from the spec: how LogConfigManager lays a partial configuration over the
  current one (its test, should update configuration dynamically: the fields given
  change, the others remain).
\<close>

definition overlay :: "LogConfig \<Rightarrow> PartialLogConfig \<Rightarrow> LogConfig" where
  "overlay c p =
     \<lparr> lc_level = (case pl_level p of Some v \<Rightarrow> v | None \<Rightarrow> lc_level c),
       lc_timestamp = (case pl_timestamp p of Some v \<Rightarrow> v | None \<Rightarrow> lc_timestamp c),
       lc_serviceName = (case pl_serviceName p of Some v \<Rightarrow> v | None \<Rightarrow> lc_serviceName c),
       lc_version = (case pl_version p of Some v \<Rightarrow> v | None \<Rightarrow> lc_version c),
       lc_environment = (case pl_environment p of Some v \<Rightarrow> v | None \<Rightarrow> lc_environment c),
       lc_streams = (case pl_streams p of Some v \<Rightarrow> v | None \<Rightarrow> lc_streams c) \<rparr>"

text \<open>
  Modelled from the spec: LogConfigManager, the configuration manager whose class is not
  among the sources. Its state is the configuration. \<open>initialize\<close> succeeds;
  \<open>updateConfig\<close> validates the overlaid configuration, and a validation failure
  returns an error result and does not replace the configuration (sections 4.1 and 7:
  the last-known-good configuration remains active).
\<close>

definition LogConfigManager :: "LogConfig ConfigManagerOps" where
  "LogConfigManager =
     \<lparr> cmInitialize = (\<lambda>c. (Inr (), c)),
       cmGetConfig = (\<lambda>c. c),
       cmUpdateConfig = (\<lambda>p c.
         if validateConfig (overlay c p) then (Inr (), overlay c p)
         else (Inl (Error ''Configuration update failed''), c)) \<rparr>"

section \<open>Example inputs\<close>

text \<open>
  An environment in which every file opens, pino accepts the canonical levels and the
  sink takes every line; the default configuration with its one console stream; and a
  process environment that sets only \<open>LOG_LEVEL=error\<close>.
\<close>

definition exampleEnv :: Env where
  "exampleEnv = \<lparr> fsOk = (\<lambda>path. True), pinoOk = (\<lambda>level. level \<in> set canonicalLevels),
                  sinkError = None \<rparr>"

definition exampleConfig :: LogConfig where
  "exampleConfig =
     \<lparr> lc_level = ''info'', lc_timestamp = True, lc_serviceName = ''claude-code-router'',
       lc_version = ''1.0.0'', lc_environment = ''development'',
       lc_streams = [defaultConsole] \<rparr>"

definition exampleProcessEnv :: ProcessEnv where
  "exampleProcessEnv =
     \<lparr> LOG_LEVEL = Some ''error'', LOG_TIMESTAMP = None, LOG_SERVICE_NAME = None,
       LOG_VERSION = None, NODE_ENV = None, LOG_STREAMS = None \<rparr>"

section \<open>Properties of RequestContextTracker\<close>

lemma updateContext_missing:
  "requestContexts tr requestId = None \<Longrightarrow>
     updateContext requestId updates tr
       = (Inl (Error (''Request context not found: '' @ requestId)), tr)"
  by (simp add: updateContext_def)

text \<open>
  C10. For a requestId that has no context, \<open>trackRequestEnd\<close> and \<open>trackRequestError\<close>
  leave the tracker unchanged: the map of contexts and every statistic (totalRequests,
  activeRequests, completedRequests, failedRequests, averageResponseTime, lastUpdated)
  keep their values, because the lookup inside \<open>updateContext\<close> fails.
\<close>

theorem trackRequestEnd_Error_missing_unchanged:
  assumes "getContext requestId tr = None"
  shows "trackRequestEnd now requestId statusCode duration responseSize tr = tr
       \<and> trackRequestError now' requestId err statusCode' tr = tr"
  using assms
  by (simp add: trackRequestEnd_def trackRequestError_def getContext_def
        updateContext_missing Let_def)

theorem trackRequestEnd_Error_missing_unchanged_witness:
  "getContext ''r1'' (newRequestContextTracker 0) = None
   \<and> trackRequestEnd 5 ''r1'' 500 120 None (newRequestContextTracker 0) = newRequestContextTracker 0
   \<and> trackRequestError 7 ''r1'' \<lparr> ei_name = ''E'', ei_message = ''boom'', ei_stack = None \<rparr>
        (Some 500) (newRequestContextTracker 0) = newRequestContextTracker 0"
proof -
  have h: "getContext ''r1'' (newRequestContextTracker 0) = None"
    by (simp add: getContext_def newRequestContextTracker_def)
  show ?thesis
    using h trackRequestEnd_Error_missing_unchanged [OF h] by simp
qed





section \<open>Properties of ErrorLogger\<close>

lemma mapSet_sum:
  "sum_list (map snd (mapSet k ((case mapGet m k of Some c \<Rightarrow> c | None \<Rightarrow> 0) + 1) m))
     = sum_list (map snd m) + (1::int)"
  by (induction m) auto

lemma updateErrorCount_sum:
  "sum_list (map snd (errorCounts (updateErrorCount name el)))
     = sum_list (map snd (errorCounts el)) + 1"
  by (simp add: updateErrorCount_def mapSet_sum)

lemma logError_counts:
  "sum_list (map snd (errorCounts (logError t e c el))) = sum_list (map snd (errorCounts el)) + 1"
  by (simp add: logError_def addToErrorHistory_def Let_def updateErrorCount_sum)

lemma logError_history:
  "errorHistory (logError t e c el)
     = sliceLast maxHistorySize (errorHistory el @ [toEntry (t, e, c)])"
  by (simp add: logError_def addToErrorHistory_def Let_def updateErrorCount_def sliceLast_def)

lemma logErrors_snoc:
  "logErrors (calls @ [(t, e, c)]) el = logError t e c (logErrors calls el)"
  by (simp add: logErrors_def)

lemma logErrors_counts:
  "sum_list (map snd (errorCounts (logErrors calls el)))
     = sum_list (map snd (errorCounts el)) + int (length calls)"
proof (induction calls rule: rev_induct)
  case Nil
  then show ?case by (simp add: logErrors_def)
next
  case (snoc x xs)
  obtain t e c where x: "x = (t, e, c)" by (cases x)
  show ?case unfolding x logErrors_snoc logError_counts snoc.IH by simp
qed

lemma sliceLast_snoc:
  "sliceLast n (sliceLast n xs @ [x]) = sliceLast n (xs @ [x])"
  by (cases "length xs \<le> n") (auto simp: sliceLast_def Suc_diff_le)

text \<open>The history after any calls: the last 1000 of the entries, in order.\<close>

lemma logErrors_history_from:
  "calls \<noteq> [] \<Longrightarrow>
     errorHistory (logErrors calls el)
       = sliceLast maxHistorySize (errorHistory el @ map toEntry calls)"
proof (induction calls rule: rev_induct)
  case Nil
  then show ?case by simp
next
  case (snoc x xs)
  obtain t e c where x: "x = (t, e, c)" by (cases x)
  show ?case
  proof (cases "xs = []")
    case True
    then show ?thesis unfolding x by (simp add: logErrors_def logError_history)
  next
    case False
    then have "errorHistory (logErrors xs el)
                 = sliceLast maxHistorySize (errorHistory el @ map toEntry xs)"
      by (rule snoc.IH)
    then show ?thesis unfolding x logErrors_snoc logError_history
      using sliceLast_snoc [of maxHistorySize "errorHistory el @ map toEntry xs" "toEntry (t, e, c)"]
      by simp
  qed
qed

lemma logErrors_history:
  "errorHistory (logErrors calls newErrorLogger) = sliceLast maxHistorySize (map toEntry calls)"
proof (cases "calls = []")
  case True
  then show ?thesis by (simp add: logErrors_def newErrorLogger_def sliceLast_def)
next
  case False
  then show ?thesis by (simp add: logErrors_history_from newErrorLogger_def)
qed

text \<open>
  C8. Recording 1001 errors through \<open>logError\<close> on a fresh ErrorLogger leaves exactly
  1000 entries in the history, namely the calls without the oldest one, in order (the
  1000 most recent), while the values of the name-to-count map sum to 1001.
\<close>

theorem logError_1001_history_capped_counts_kept:
  assumes "length calls = 1001"
  shows "errorHistory (logErrors calls newErrorLogger) = drop 1 (map toEntry calls)
       \<and> length (errorHistory (logErrors calls newErrorLogger)) = 1000
       \<and> sum_list (map snd (errorCounts (logErrors calls newErrorLogger))) = 1001"
proof -
  have h: "errorHistory (logErrors calls newErrorLogger) = drop 1 (map toEntry calls)"
    using assms by (simp add: logErrors_history sliceLast_def maxHistorySize_def)
  have c: "sum_list (map snd (errorCounts (logErrors calls newErrorLogger))) = 1001"
    using assms by (simp add: logErrors_counts newErrorLogger_def)
  show ?thesis using h c assms by simp
qed

theorem logError_1001_history_capped_counts_kept_witness:
  "length (map (\<lambda>i. (int i, \<lparr> ei_name = ''TypeError'', ei_message = ''m'', ei_stack = None \<rparr>,
                      [])) [0..<1001]) = 1001
   \<and> length (errorHistory (logErrors
        (map (\<lambda>i. (int i, \<lparr> ei_name = ''TypeError'', ei_message = ''m'', ei_stack = None \<rparr>,
                    [])) [0..<1001]) newErrorLogger)) = 1000
   \<and> sum_list (map snd (errorCounts (logErrors
        (map (\<lambda>i. (int i, \<lparr> ei_name = ''TypeError'', ei_message = ''m'', ei_stack = None \<rparr>,
                    [])) [0..<1001]) newErrorLogger))) = 1001"
  using logError_1001_history_capped_counts_kept
    [of "map (\<lambda>i. (int i, \<lparr> ei_name = ''TypeError'', ei_message = ''m'', ei_stack = None \<rparr>,
                      [])) [0..<1001]"]
  by simp

text \<open>
  C9. After more than 1000 \<open>logError\<close> calls, whatever the logger held before them,
  \<open>getErrorStatistics().totalErrors\<close> is exactly 1000: it is the length of the capped
  history, not the number of errors recorded.
\<close>

theorem totalErrors_stops_at_cap:
  assumes "length calls > 1000"
  shows "totalErrors (getErrorStatistics (logErrors calls el)) = 1000"
proof -
  have "calls \<noteq> []" using assms by auto
  then have "errorHistory (logErrors calls el)
               = sliceLast maxHistorySize (errorHistory el @ map toEntry calls)"
    by (rule logErrors_history_from)
  then show ?thesis
    using assms by (simp add: getErrorStatistics_def sliceLast_def maxHistorySize_def)
qed

theorem totalErrors_stops_at_cap_witness:
  "length (replicate 1500 (0::int, \<lparr> ei_name = ''E'', ei_message = ''m'', ei_stack = None \<rparr>,
             [] :: (string \<times> MetaValue) list)) > 1000
   \<and> totalErrors (getErrorStatistics (logErrors
        (replicate 1500 (0, \<lparr> ei_name = ''E'', ei_message = ''m'', ei_stack = None \<rparr>, []))
        newErrorLogger)) = 1000"
  using totalErrors_stops_at_cap
    [of "replicate 1500 (0, \<lparr> ei_name = ''E'', ei_message = ''m'', ei_stack = None \<rparr>, [])"
        newErrorLogger]
  by simp

section \<open>Properties of StreamStateTracker\<close>

text \<open>
  C3. \<open>updateStreamProgress\<close> divides the byte delta since the previous update by the
  time since the stream started, not by the time since the previous update. A stream
  started at 0 ms, updated to 1000 bytes at 1000 ms (so \<open>lastUpdateTime\<close> is 1000) and to
  2000 bytes at 2000 ms has \<open>transferRate\<close> 500 bytes/s after the second update; the
  rate over the interval since the previous update is 1000 bytes/s.
\<close>

theorem updateStreamProgress_rate_uses_startTime:
  "map_option lastUpdateTime (streamProgress (snd
      (updateStreamProgress 1000 1000 ''s1'' 1000 1
        (snd (startStream 0 ''s1'' ''text/plain'' None newStreamStateTracker)))) ''s1'')
     = Some 1000
   \<and> map_option transferRate (streamProgress (snd
      (updateStreamProgress 2000 2000 ''s1'' 2000 2
        (snd (updateStreamProgress 1000 1000 ''s1'' 1000 1
          (snd (startStream 0 ''s1'' ''text/plain'' None newStreamStateTracker)))))) ''s1'')
     = Some 500
   \<and> of_int (2000 - 1000) / (of_int (2000 - 1000) / 1000) = (1000 :: rat)"
  by (simp add: updateStreamProgress_def startStream_def newStreamStateTracker_def
        recordMetric_def calculateEstimatedTime_def Let_def)

section \<open>Properties of ConfigFileIntegration\<close>

text \<open>
  C1. One resolution pass with the environment setting \<open>LOG_LEVEL=error\<close> and the
  default configuration at level info: the sources are sorted environment first, default
  last, both define \<open>level\<close>, and the merged level is the default's info, not the
  environment's error. \<open>mergeConfigs\<close> lets every later source overwrite the scalar
  fields, so the source with the largest priority number decides them.
\<close>

theorem mergeConfigs_level_from_default_not_environment:
  "map cs_type (collectConfigSources 0 (\<lambda>s. None) exampleProcessEnv
                  (fullConfig exampleConfig) None None)
     = [''environment'', ''default'']
   \<and> map (\<lambda>s. pl_level (cs_config s))
        (collectConfigSources 0 (\<lambda>s. None) exampleProcessEnv (fullConfig exampleConfig) None None)
     = [Some ''error'', Some ''info'']
   \<and> lc_level (fst (mergeConfigs exampleProcessEnv
        (collectConfigSources 0 (\<lambda>s. None) exampleProcessEnv (fullConfig exampleConfig) None None)
        [] [])) = ''info''"
  by (simp add: collectConfigSources_def loadEnvironmentConfig_def exampleProcessEnv_def
        fullConfig_def exampleConfig_def orElse_def mergeConfigs_def mergeSource_def
        ENVIRONMENT_def DEFAULT_def Let_def defaultConsole_def)

section \<open>Properties of StreamManager\<close>

lemma mapGet_mapSet: "mapGet (mapSet k v m) k = Some v"
  by (induction m) auto

lemma mapSet_keys_present:
  "mapGet m k \<noteq> None \<Longrightarrow> map fst (mapSet k v m) = map fst m"
  by (induction m) auto

text \<open>
  C2. A configuration with the one console stream default-console at level info: the
  stream constructs, \<open>initialize\<close> succeeds and registers it, and \<open>getMultiStreams\<close>
  returns no entry at all. Its filter looks the stream's level up in the set of active
  stream names.
\<close>

theorem getMultiStreams_empty_after_initialize:
  "fst (StreamManager_initialize exampleEnv (newStreamManager exampleConfig)) = Inr ()
   \<and> streams (snd (StreamManager_initialize exampleEnv (newStreamManager exampleConfig)))
       = [(''default-console'', \<lparr> ms_stream = Stdout, ms_level = ''info'', ms_autoEnd = True \<rparr>)]
   \<and> getStreamStatus ''default-console''
        (snd (StreamManager_initialize exampleEnv (newStreamManager exampleConfig)))
       = Inr (True, ''info'')
   \<and> getMultiStreams (snd (StreamManager_initialize exampleEnv (newStreamManager exampleConfig)))
       = []"
  by (simp add: StreamManager_initialize_def createDefaultStreams_def newStreamManager_def
        exampleConfig_def defaultConsole_def createStream_def ConsoleStream_initialize_def
        getStream_def getMultiStreams_def getStreamStatus_def)

text \<open>
  C6, as stated, fails: with default-console registered, \<open>addStream\<close> of a console
  stream of the same name at level error returns success, and the registry holds the new
  stream under that name.
\<close>

theorem addStream_duplicate_name_counterexample:
  "mapGet (streams (snd (StreamManager_initialize exampleEnv (newStreamManager exampleConfig))))
      ''default-console''
     = Some \<lparr> ms_stream = Stdout, ms_level = ''info'', ms_autoEnd = True \<rparr>
   \<and> fst (addStream exampleEnv (defaultConsole\<lparr> en_level := ''error'' \<rparr>)
        (snd (StreamManager_initialize exampleEnv (newStreamManager exampleConfig)))) = Inr ()
   \<and> streams (snd (addStream exampleEnv (defaultConsole\<lparr> en_level := ''error'' \<rparr>)
        (snd (StreamManager_initialize exampleEnv (newStreamManager exampleConfig)))))
       = [(''default-console'', \<lparr> ms_stream = Stdout, ms_level = ''error'', ms_autoEnd = True \<rparr>)]"
  by (simp add: StreamManager_initialize_def createDefaultStreams_def newStreamManager_def
        exampleConfig_def defaultConsole_def createStream_def ConsoleStream_initialize_def
        getStream_def addStream_def)

text \<open>
  C6, amended. For a stream descriptor whose name is already registered, \<open>addStream\<close>
  returns an error result and leaves the stream manager unchanged when the new stream
  fails to construct; when it constructs, \<open>addStream\<close> returns success and the new
  stream replaces the one registered under that name, the names in the registry staying
  as they were.
\<close>

theorem addStream_duplicate_name_replaces:
  assumes "mapGet (streams sm) (en_name entry) \<noteq> None"
  shows "case createStream env entry of
           Inl e \<Rightarrow> addStream env entry sm = (Inl e, sm)
         | Inr stream \<Rightarrow>
             addStream env entry sm
               = (Inr (), sm\<lparr> streams := mapSet (en_name entry) stream (streams sm),
                              sm_activeStreams := insert (en_name entry) (sm_activeStreams sm) \<rparr>)
             \<and> mapGet (streams (snd (addStream env entry sm))) (en_name entry) = Some stream
             \<and> map fst (streams (snd (addStream env entry sm))) = map fst (streams sm)"
  using assms
  by (simp add: addStream_def mapGet_mapSet mapSet_keys_present split: sum.splits)

theorem addStream_duplicate_name_replaces_witness:
  "mapGet (streams (snd (StreamManager_initialize exampleEnv (newStreamManager exampleConfig))))
      (en_name (defaultConsole\<lparr> en_level := ''error'' \<rparr>)) \<noteq> None
   \<and> createStream exampleEnv (defaultConsole\<lparr> en_level := ''error'' \<rparr>)
       = Inr \<lparr> ms_stream = Stdout, ms_level = ''error'', ms_autoEnd = True \<rparr>
   \<and> mapGet (streams (snd (addStream exampleEnv (defaultConsole\<lparr> en_level := ''error'' \<rparr>)
        (snd (StreamManager_initialize exampleEnv (newStreamManager exampleConfig))))))
        (en_name (defaultConsole\<lparr> en_level := ''error'' \<rparr>))
       = Some \<lparr> ms_stream = Stdout, ms_level = ''error'', ms_autoEnd = True \<rparr>
   \<and> map fst (streams (snd (addStream exampleEnv (defaultConsole\<lparr> en_level := ''error'' \<rparr>)
        (snd (StreamManager_initialize exampleEnv (newStreamManager exampleConfig))))))
       = map fst (streams (snd (StreamManager_initialize exampleEnv
                                  (newStreamManager exampleConfig))))"
proof -
  have h: "mapGet (streams (snd (StreamManager_initialize exampleEnv
                                   (newStreamManager exampleConfig))))
             (en_name (defaultConsole\<lparr> en_level := ''error'' \<rparr>)) \<noteq> None"
    by (simp add: StreamManager_initialize_def createDefaultStreams_def newStreamManager_def
          exampleConfig_def defaultConsole_def createStream_def ConsoleStream_initialize_def
          getStream_def)
  have c: "createStream exampleEnv (defaultConsole\<lparr> en_level := ''error'' \<rparr>)
             = Inr \<lparr> ms_stream = Stdout, ms_level = ''error'', ms_autoEnd = True \<rparr>"
    by (simp add: defaultConsole_def createStream_def ConsoleStream_initialize_def getStream_def)
  note r = addStream_duplicate_name_replaces [OF h, of exampleEnv, unfolded c sum.case]
  show ?thesis
    using h c r by blast
qed

section \<open>Properties of LogManager\<close>

text \<open>
  C4. After a call of \<open>initialize\<close> that returned success, the pipeline is initialized,
  and a second call, whatever the configuration manager, the environment and the clock
  are by then, returns success and leaves the whole LogManager (configuration manager,
  stream manager, trackers, error logger, logger, flag) exactly as the first call left it.
\<close>

theorem LogManager_initialize_twice:
  assumes "LogManager_initialize ops env now lm = (Inr (), lm')"
  shows "initialized lm' \<and> LogManager_initialize ops' env' now' lm' = (Inr (), lm')"
proof -
  have i: "initialized lm'"
    using assms
    by (auto simp: LogManager_initialize_def Let_def split: if_splits prod.splits sum.splits)
  then show ?thesis by (simp add: LogManager_initialize_def)
qed

theorem LogManager_initialize_twice_witness:
  "LogManager_initialize LogConfigManager exampleEnv 0 (newLogManager LogConfigManager exampleConfig)
     = (Inr (), snd (LogManager_initialize LogConfigManager exampleEnv 0
                       (newLogManager LogConfigManager exampleConfig)))
   \<and> initialized (snd (LogManager_initialize LogConfigManager exampleEnv 0
                       (newLogManager LogConfigManager exampleConfig)))
   \<and> LogManager_initialize LogConfigManager exampleEnv 1
       (snd (LogManager_initialize LogConfigManager exampleEnv 0
               (newLogManager LogConfigManager exampleConfig)))
     = (Inr (), snd (LogManager_initialize LogConfigManager exampleEnv 0
                       (newLogManager LogConfigManager exampleConfig)))"
proof -
  have f: "fst (LogManager_initialize LogConfigManager exampleEnv 0
                  (newLogManager LogConfigManager exampleConfig)) = Inr ()"
    by (simp add: LogManager_initialize_def newLogManager_def LogConfigManager_def
          StreamManager_initialize_def pino_def exampleEnv_def exampleConfig_def
          canonicalLevels_def RequestContextTracker_initialize_def
          StreamStateTracker_initialize_def ErrorLogger_initialize_def Let_def)
  have h: "LogManager_initialize LogConfigManager exampleEnv 0
             (newLogManager LogConfigManager exampleConfig)
           = (Inr (), snd (LogManager_initialize LogConfigManager exampleEnv 0
                             (newLogManager LogConfigManager exampleConfig)))"
    using f by (simp add: prod_eq_iff)
  show ?thesis
    using h LogManager_initialize_twice [OF h, of LogConfigManager exampleEnv 1] by simp
qed

text \<open>
  C5. When the configuration manager rejects the partial configuration (its
  \<open>updateConfig\<close> returns an error result), \<open>LogManager.updateConfig\<close> returns that
  error and changes nothing of its own: the stream manager is neither cleaned up nor
  initialized again, the logger is not replaced and the trackers stay; the configuration
  manager is as its own \<open>updateConfig\<close> left it.
\<close>

theorem LogManager_updateConfig_rejected:
  assumes "cmUpdateConfig ops newConfig (configManager lm) = (Inl e, cm')"
  shows "LogManager_updateConfig ops env newConfig lm = (Inl e, lm\<lparr> configManager := cm' \<rparr>)"
  using assms by (simp add: LogManager_updateConfig_def)

theorem LogManager_updateConfig_rejected_witness:
  "cmUpdateConfig LogConfigManager
      \<lparr> pl_level = Some ''invalid'', pl_timestamp = None, pl_serviceName = None,
        pl_version = None, pl_environment = None, pl_streams = None \<rparr>
      (configManager (snd (LogManager_initialize LogConfigManager exampleEnv 0
                             (newLogManager LogConfigManager exampleConfig))))
     = (Inl (Error ''Configuration update failed''), exampleConfig)
   \<and> LogManager_updateConfig LogConfigManager exampleEnv
      \<lparr> pl_level = Some ''invalid'', pl_timestamp = None, pl_serviceName = None,
        pl_version = None, pl_environment = None, pl_streams = None \<rparr>
      (snd (LogManager_initialize LogConfigManager exampleEnv 0
              (newLogManager LogConfigManager exampleConfig)))
     = (Inl (Error ''Configuration update failed''),
        snd (LogManager_initialize LogConfigManager exampleEnv 0
               (newLogManager LogConfigManager exampleConfig)))"
proof -
  define lm1 where
    "lm1 = snd (LogManager_initialize LogConfigManager exampleEnv 0
                  (newLogManager LogConfigManager exampleConfig))"
  have c: "configManager lm1 = exampleConfig"
    unfolding lm1_def
    by (simp add: LogManager_initialize_def newLogManager_def LogConfigManager_def
          StreamManager_initialize_def pino_def exampleEnv_def exampleConfig_def
          canonicalLevels_def RequestContextTracker_initialize_def
          StreamStateTracker_initialize_def ErrorLogger_initialize_def Let_def)
  have h: "cmUpdateConfig LogConfigManager
      \<lparr> pl_level = Some ''invalid'', pl_timestamp = None, pl_serviceName = None,
        pl_version = None, pl_environment = None, pl_streams = None \<rparr>
      (configManager lm1)
     = (Inl (Error ''Configuration update failed''), exampleConfig)"
    unfolding c
    by (simp add: LogConfigManager_def validateConfig_def overlay_def exampleConfig_def
          canonicalLevels_def)
  have same: "lm1\<lparr> configManager := exampleConfig \<rparr> = lm1"
    using c [symmetric] by simp
  have r: "LogManager_updateConfig LogConfigManager exampleEnv
      \<lparr> pl_level = Some ''invalid'', pl_timestamp = None, pl_serviceName = None,
        pl_version = None, pl_environment = None, pl_streams = None \<rparr> lm1
     = (Inl (Error ''Configuration update failed''), lm1)"
    using LogManager_updateConfig_rejected [OF h, of exampleEnv] unfolding same .
  show ?thesis
    using h r unfolding lm1_def by blast
qed

end
